theory Spec2Isabelle
  imports Complex_Main
begin

section \<open>Data model (watchlist/models.py)\<close>

text \<open>
  The two tables the rating engine works on. Primary keys and foreign keys are natural
  numbers, \<open>IntegerField\<close>s are unbounded integers, \<open>DateTimeField\<close>s are integer
  timestamps in seconds, and the \<open>FloatField\<close> \<open>avg_rating\<close> is an exact real number
  (rounding of binary floating point is not modelled; the concrete inputs evaluated below
  only produce values a double represents exactly). Field names are the source's, with the prefix
  \<open>wl_\<close> or \<open>rv_\<close> where both models declare a field of the same name.
\<close>

record watch_list =
  wl_id :: nat
  title :: string
  storyline :: string
  platform :: nat
  wl_active :: bool
  avg_rating :: real
  number_rating :: int
  wl_created :: int
  genres :: "nat list"
  release_year :: "int option"
  duration :: "int option"
  poster :: string
  trailer_url :: string

record review =
  rv_id :: nat
  review_user :: nat
  rating :: int
  description :: "string option"
  watchlist :: nat
  rv_active :: bool
  rv_created :: int
  rv_update :: int
  is_spoiler :: bool
  helpful_count :: int

text \<open>
  The database: both tables as lists of rows, in the order the engine scans them, and the
  two primary-key sequences.
\<close>

record db =
  watchlists :: "watch_list list"
  reviews :: "review list"
  watchlist_seq :: nat
  review_seq :: nat

datatype error =
    DuplicateReview
  | InvalidRating
  | InvalidData
  | NotFound
  | Forbidden
  | DoesNotExist
  | ZeroDivisionError

section \<open>Review requests (ReviewSerializer)\<close>

text \<open>
  The writable fields of \<open>ReviewSerializer\<close>: \<open>watchlist\<close> is excluded, \<open>review_user\<close> and
  \<open>helpful_count\<close> are read-only, \<open>created\<close> and \<open>update\<close> are set by the model. \<open>None\<close> is a
  field the request does not carry; for \<open>description\<close>, \<open>Some None\<close> is an explicit null.
  The request is taken as the framework hands it to the field validators (parsed, strings
  trimmed).
\<close>

record review_data =
  rd_rating :: "int option"
  rd_description :: "string option option"
  rd_is_spoiler :: "bool option"
  rd_active :: "bool option"

text \<open>\<open>Review.rating\<close>: \<open>validators=[MinValueValidator(1), MaxValueValidator(5)]\<close>.\<close>

definition valid_rating :: "int \<Rightarrow> bool" where
  "valid_rating r = (1 \<le> r \<and> r \<le> 5)"

text \<open>\<open>Review.description\<close>: \<open>CharField(max_length=200, null=True)\<close>, not blank.\<close>

definition valid_description :: "string option option \<Rightarrow> bool" where
  "valid_description x =
     (case x of
        None \<Rightarrow> True
      | Some None \<Rightarrow> True
      | Some (Some s) \<Rightarrow> s \<noteq> [] \<and> length s \<le> 200)"

text \<open>
  \<open>serializer.is_valid(raise_exception=True)\<close>: \<open>rating\<close> is required unless the update is
  partial (PATCH); the result is the error raised, if any.
\<close>

definition is_valid :: "bool \<Rightarrow> review_data \<Rightarrow> error option" where
  "is_valid partial data =
     (case rd_rating data of
        None \<Rightarrow>
          if \<not> partial then Some InvalidData
          else if valid_description (rd_description data) then None else Some InvalidData
      | Some r \<Rightarrow>
          if \<not> valid_rating r then Some InvalidRating
          else if valid_description (rd_description data) then None else Some InvalidData)"

section \<open>Review views (watchlist/api/views.py)\<close>

definition get_watchlist :: "db \<Rightarrow> nat \<Rightarrow> watch_list option" where
  "get_watchlist d pk = find (\<lambda>w. wl_id w = pk) (watchlists d)"

definition get_review :: "db \<Rightarrow> nat \<Rightarrow> review option" where
  "get_review d pk = find (\<lambda>r. rv_id r = pk) (reviews d)"

text \<open>\<open>Model.save()\<close> of a loaded row: UPDATE ... WHERE id = pk.\<close>

definition save_watchlist :: "watch_list \<Rightarrow> db \<Rightarrow> db" where
  "save_watchlist wl d =
     d\<lparr>watchlists := map (\<lambda>w. if wl_id w = wl_id wl then wl else w) (watchlists d)\<rparr>"

definition save_review :: "review \<Rightarrow> db \<Rightarrow> db" where
  "save_review rv d =
     d\<lparr>reviews := map (\<lambda>r. if rv_id r = rv_id rv then rv else r) (reviews d)\<rparr>"

text \<open>
  The running average of \<open>perform_create\<close>; the division raises when the stored count is
  -1.
\<close>

definition new_avg_rating :: "watch_list \<Rightarrow> int \<Rightarrow> error + real" where
  "new_avg_rating wl new_rating =
     (if number_rating wl = 0 then Inr (real_of_int new_rating)
      else
        let total_rating = avg_rating wl * real_of_int (number_rating wl)
        in if number_rating wl + 1 = 0 then Inl ZeroDivisionError
           else Inr ((total_rating + real_of_int new_rating) / real_of_int (number_rating wl + 1)))"

text \<open>
  \<open>ReviewCreate.perform_create\<close>, called with the validated rating. The operations return
  the response together with the database they leave behind, so that a write made before
  an exception stays visible (no view runs in a transaction).
\<close>

definition perform_create ::
    "db \<Rightarrow> int \<Rightarrow> nat \<Rightarrow> nat \<Rightarrow> int \<Rightarrow> review_data \<Rightarrow> (error + review) \<times> db" where
  "perform_create d now review_user' pk new_rating data =
     (case get_watchlist d pk of
        None \<Rightarrow> (Inl DoesNotExist, d)
      | Some wl \<Rightarrow>
          if filter (\<lambda>r. watchlist r = wl_id wl \<and> review_user r = review_user') (reviews d) \<noteq> []
          then (Inl DuplicateReview, d)
          else
            (case new_avg_rating wl new_rating of
               Inl e \<Rightarrow> (Inl e, d)
             | Inr avg \<Rightarrow>
                 let wl' = wl\<lparr>avg_rating := avg, number_rating := number_rating wl + 1\<rparr>;
                     d1 = save_watchlist wl' d;
                     rv = \<lparr>rv_id = review_seq d1,
                           review_user = review_user',
                           rating = new_rating,
                           description = (case rd_description data of None \<Rightarrow> None | Some x \<Rightarrow> x),
                           watchlist = wl_id wl,
                           rv_active = (case rd_active data of None \<Rightarrow> True | Some b \<Rightarrow> b),
                           rv_created = now,
                           rv_update = now,
                           is_spoiler = (case rd_is_spoiler data of None \<Rightarrow> False | Some b \<Rightarrow> b),
                           helpful_count = 0\<rparr>
                 in (Inr rv, d1\<lparr>reviews := reviews d1 @ [rv], review_seq := Suc (review_seq d1)\<rparr>)))"

text \<open>\<open>ReviewCreate\<close> (POST): validate, then \<open>perform_create\<close>.\<close>

definition create_review ::
    "db \<Rightarrow> int \<Rightarrow> nat \<Rightarrow> nat \<Rightarrow> review_data \<Rightarrow> (error + review) \<times> db" where
  "create_review d now review_user' pk data =
     (case is_valid False data of
        Some e \<Rightarrow> (Inl e, d)
      | None \<Rightarrow>
          (case rd_rating data of
             None \<Rightarrow> (Inl InvalidData, d)
           | Some r \<Rightarrow> perform_create d now review_user' pk r data))"

text \<open>
  Modelled from the spec: \<open>permissions.IsReviewUserOrReadOnly\<close> (watchlist/api/permissions.py
  is not among the sources). The spec: an update or removal "fails with Forbidden if
  actor_id is not the owning user".
\<close>

definition is_review_user_or_read_only :: "nat \<Rightarrow> review \<Rightarrow> bool" where
  "is_review_user_or_read_only actor rv = (review_user rv = actor)"

text \<open>
  \<open>ReviewDetail\<close> (PUT, PATCH): the view overrides nothing, so the update is the generic
  one: fetch the row, check the object permission, validate, assign the validated fields
  and save the review. The item is not touched.
\<close>

definition update_review ::
    "db \<Rightarrow> int \<Rightarrow> nat \<Rightarrow> nat \<Rightarrow> bool \<Rightarrow> review_data \<Rightarrow> (error + review) \<times> db" where
  "update_review d now actor pk partial data =
     (case get_review d pk of
        None \<Rightarrow> (Inl NotFound, d)
      | Some rv \<Rightarrow>
          if \<not> is_review_user_or_read_only actor rv then (Inl Forbidden, d)
          else
            (case is_valid partial data of
               Some e \<Rightarrow> (Inl e, d)
             | None \<Rightarrow>
                 let rv' = rv\<lparr>rating := (case rd_rating data of None \<Rightarrow> rating rv | Some r \<Rightarrow> r),
                              description :=
                                (case rd_description data of None \<Rightarrow> description rv | Some x \<Rightarrow> x),
                              is_spoiler :=
                                (case rd_is_spoiler data of None \<Rightarrow> is_spoiler rv | Some b \<Rightarrow> b),
                              rv_active :=
                                (case rd_active data of None \<Rightarrow> rv_active rv | Some b \<Rightarrow> b),
                              rv_update := now\<rparr>
                 in (Inr rv', save_review rv' d)))"

text \<open>\<open>ReviewDetail\<close> (DELETE): the generic destroy; the item is not touched.\<close>

definition delete_review :: "db \<Rightarrow> nat \<Rightarrow> nat \<Rightarrow> (error + unit) \<times> db" where
  "delete_review d actor pk =
     (case get_review d pk of
        None \<Rightarrow> (Inl NotFound, d)
      | Some rv \<Rightarrow>
          if \<not> is_review_user_or_read_only actor rv then (Inl Forbidden, d)
          else (Inr (), d\<lparr>reviews := filter (\<lambda>r. rv_id r \<noteq> pk) (reviews d)\<rparr>))"

text \<open>
  \<open>ReviewHelpfulView.post\<close>: \<open>save()\<close> writes the loaded row back, and the \<open>auto_now\<close> field
  \<open>update\<close> takes the current time on every save.
\<close>

definition mark_helpful :: "db \<Rightarrow> int \<Rightarrow> nat \<Rightarrow> (error + int) \<times> db" where
  "mark_helpful d now pk =
     (case get_review d pk of
        None \<Rightarrow> (Inl NotFound, d)
      | Some rv \<Rightarrow>
          let rv' = rv\<lparr>helpful_count := helpful_count rv + 1, rv_update := now\<rparr>
          in (Inr (helpful_count rv'), save_review rv' d))"

section \<open>Catalog views (WatchListSerializer, WatchListAV, WatchDetailAV)\<close>




section \<open>Rankings (watchlist/api/views.py)\<close>

text \<open>
  The querysets, evaluated as the SQL they build: joins as filtered products, WHERE as
  \<open>filter\<close>, DISTINCT and GROUP BY as \<open>remdups\<close>, ORDER BY ... DESC as a sort on the negated
  key, the slice as \<open>take\<close>. SQL leaves the order of rows with equal sort keys to the
  engine; here the tables are lists in the engine's row order and the sort is stable, so
  tied rows come out in the order of the table.
\<close>


text \<open>\<open>timedelta(days=n)\<close>, in seconds.\<close>

definition timedelta_days :: "int \<Rightarrow> int" where
  "timedelta_days n = n * 86400"

text \<open>
  \<open>TrendingMoviesView.get_queryset\<close>. The filter on \<open>reviews__created\<close> joins the review
  table, and \<open>Count('reviews')\<close>, annotated after the filter, counts the rows of that join in
  each group.
\<close>

definition trending_rows :: "db \<Rightarrow> int \<Rightarrow> (watch_list \<times> review) list" where
  "trending_rows d now =
     (let seven_days_ago = now - timedelta_days 7
      in filter (\<lambda>(w, r). rv_created r \<ge> seven_days_ago \<and> wl_active w)
           (filter (\<lambda>(w, r). watchlist r = wl_id w) (List.product (watchlists d) (reviews d))))"

definition recent_review_count :: "(watch_list \<times> review) list \<Rightarrow> watch_list \<Rightarrow> nat" where
  "recent_review_count rows w = length (filter (\<lambda>(w', r). w' = w) rows)"

definition trending :: "db \<Rightarrow> int \<Rightarrow> watch_list list" where
  "trending d now =
     (let rows = trending_rows d now
      in take 10 (sort_key (\<lambda>w. - int (recent_review_count rows w)) (remdups (map fst rows))))"

text \<open>
  \<open>SimilarMoviesView.get_queryset\<close>. \<open>genres__in\<close> joins the many-to-many table, one row for
  each genre of an item that is among the reference item's; the default ordering of
  \<open>WatchList\<close> is \<open>-created\<close>.
\<close>

definition similar_rows :: "db \<Rightarrow> watch_list \<Rightarrow> watch_list list" where
  "similar_rows d movie =
     concat (map (\<lambda>w. map (\<lambda>g. w) (filter (\<lambda>g. g \<in> set (genres movie)) (genres w)))
                 (watchlists d))"

definition similar :: "db \<Rightarrow> nat \<Rightarrow> error + watch_list list" where
  "similar d pk =
     (case get_watchlist d pk of
        None \<Rightarrow> Inl NotFound
      | Some movie \<Rightarrow>
          Inr (take 10 (sort_key (\<lambda>w. - wl_created w)
                 (remdups (filter (\<lambda>w. wl_id w \<noteq> pk)
                    (filter wl_active (similar_rows d movie)))))))"

text \<open>
  The number of an item's reviews created within the trailing 7 days, in the
  specification's words.
\<close>

definition window_count :: "db \<Rightarrow> int \<Rightarrow> watch_list \<Rightarrow> nat" where
  "window_count d now w =
     length (filter (\<lambda>r. watchlist r = wl_id w \<and> now - 7 * 86400 \<le> rv_created r) (reviews d))"

section \<open>What the specification expects of the aggregate\<close>

text \<open>
  The specification's words: the mean of the ratings of all currently-active reviews of an
  item (0 when there are none), and their count.
\<close>

definition active_ratings :: "db \<Rightarrow> nat \<Rightarrow> int list" where
  "active_ratings d pk = map rating (filter (\<lambda>r. watchlist r = pk \<and> rv_active r) (reviews d))"

definition spec_average_rating :: "db \<Rightarrow> nat \<Rightarrow> real" where
  "spec_average_rating d pk =
     (if active_ratings d pk = [] then 0
      else real_of_int (sum_list (active_ratings d pk)) / real (length (active_ratings d pk)))"

definition spec_rating_count :: "db \<Rightarrow> nat \<Rightarrow> int" where
  "spec_rating_count d pk = int (length (active_ratings d pk))"

section \<open>Concrete inputs\<close>

definition movie :: "nat \<Rightarrow> watch_list" where
  "movie i = \<lparr>wl_id = i, title = ''M'', storyline = ''s'', platform = 1, wl_active = True,
              avg_rating = 0, number_rating = 0, wl_created = 0, genres = [],
              release_year = None, duration = None, poster = [], trailer_url = []\<rparr>"

definition db_one_movie :: db where
  "db_one_movie = \<lparr>watchlists = [movie 1], reviews = [], watchlist_seq = 2, review_seq = 1\<rparr>"

definition rate :: "int \<Rightarrow> review_data" where
  "rate r = \<lparr>rd_rating = Some r, rd_description = None, rd_is_spoiler = None, rd_active = None\<rparr>"

text \<open>One review of 3 by user 7; then that review updated to 5, or removed.\<close>

definition after_create :: db where
  "after_create = snd (create_review db_one_movie 10 7 1 (rate 3))"

definition after_update :: db where
  "after_update = snd (update_review after_create 20 7 1 False (rate 5))"

definition after_delete :: db where
  "after_delete = snd (delete_review after_create 7 1)"

text \<open>Two submissions (3 and 4), the first updated to 5, the second removed.\<close>

definition after_ops :: db where
  "after_ops =
     (let d1 = snd (create_review db_one_movie 10 7 1 (rate 3));
          d2 = snd (create_review d1 20 8 1 (rate 4));
          d3 = snd (update_review d2 30 7 1 False (rate 5));
          d4 = snd (delete_review d3 8 2)
      in d4)"

text \<open>Two reviews of item 1, by users 7 and 8.\<close>

definition two_reviews :: db where
  "two_reviews = snd (create_review after_create 15 8 1 (rate 4))"

text \<open>A review submitted with \<open>active = false\<close>.\<close>

definition inactive_db :: db where
  "inactive_db = snd (create_review db_one_movie 10 7 1 ((rate 3)\<lparr>rd_active := Some False\<rparr>))"


definition catalog :: "watch_list list \<Rightarrow> db" where
  "catalog ws = \<lparr>watchlists = ws, reviews = [], watchlist_seq = Suc (length ws), review_seq = 1\<rparr>"





text \<open>
  Reviews at given times. In \<open>week_db\<close>, read at time 1000000 (the window starts at 395200),
  item 1 has three reviews of which one is recent, item 2 has two recent ones, item 3 is
  inactive and item 4 has an old review only. \<open>busy_db\<close> has 11 items with one recent review
  each.
\<close>

definition review_at :: "nat \<Rightarrow> nat \<Rightarrow> nat \<Rightarrow> int \<Rightarrow> review" where
  "review_at i u w t = \<lparr>rv_id = i, review_user = u, rating = 4, description = None, watchlist = w,
                         rv_active = True, rv_created = t, rv_update = t, is_spoiler = False,
                         helpful_count = 0\<rparr>"

definition week_db :: db where
  "week_db = \<lparr>watchlists = [movie 1, movie 2, (movie 3)\<lparr>wl_active := False\<rparr>, movie 4],
               reviews = [review_at 1 7 1 0, review_at 2 8 1 100, review_at 3 9 1 999000,
                          review_at 4 7 2 999000, review_at 5 8 2 1000000,
                          review_at 6 7 3 999000, review_at 7 7 4 100],
               watchlist_seq = 5, review_seq = 8\<rparr>"

definition busy_db :: db where
  "busy_db = \<lparr>watchlists = map movie [1..<12],
               reviews = map (\<lambda>i. review_at i 7 i 999000) [1..<12],
               watchlist_seq = 12, review_seq = 12\<rparr>"

text \<open>
  Items with genres: item 1 is the reference, item 2 shares two genres with it, item 3
  none, item 4 shares one and is inactive, item 5 shares one.
\<close>

definition with_genres :: "nat \<Rightarrow> nat list \<Rightarrow> watch_list" where
  "with_genres i gs = (movie i)\<lparr>genres := gs\<rparr>"

definition genre_db :: db where
  "genre_db = catalog [with_genres 1 [1, 2], with_genres 2 [1, 2, 3], with_genres 3 [3],
                       (with_genres 4 [2])\<lparr>wl_active := False\<rparr>, with_genres 5 [2]]"


section \<open>Basic facts\<close>

lemmas review_ops_defs =
  update_review_def create_review_def perform_create_def new_avg_rating_def is_valid_def
  delete_review_def mark_helpful_def valid_rating_def valid_description_def get_watchlist_def
  get_review_def save_watchlist_def save_review_def is_review_user_or_read_only_def Let_def

lemmas inputs_defs =
  db_one_movie_def movie_def rate_def after_create_def after_update_def after_delete_def
  after_ops_def inactive_db_def

lemma find_Some_key: "find (\<lambda>x. f x = k) xs = Some y \<Longrightarrow> f y = k \<and> y \<in> set xs"
  by (induction xs) (auto split: if_splits)

lemma find_None_key: "find (\<lambda>x. f x = k) xs = None \<longleftrightarrow> k \<notin> f ` set xs"
  by (induction xs) auto

lemma find_distinct_key:
  "distinct (map f xs) \<Longrightarrow> find (\<lambda>x. f x = k) xs = Some y \<Longrightarrow> x \<in> set xs \<Longrightarrow> f x = k
     \<Longrightarrow> x = y"
  by (induction xs) (auto split: if_splits)

lemma find_map_replace:
  "find (\<lambda>x. key x = k) xs = Some y \<Longrightarrow> key y' = k
     \<Longrightarrow> find (\<lambda>x. key x = k) (map (\<lambda>x. if key x = key y' then y' else x) xs) = Some y'"
  by (induction xs) (auto split: if_splits)

lemma invalid_rating_is_valid:
  "rd_rating data = Some r \<Longrightarrow> \<not> valid_rating r \<Longrightarrow> is_valid p data = Some InvalidRating"
  by (simp add: is_valid_def)

lemma valid_rating_is_valid:
  "rd_rating data = Some r \<Longrightarrow> valid_rating r \<Longrightarrow> valid_description (rd_description data)
     \<Longrightarrow> is_valid p data = None"
  by (simp add: is_valid_def)

section \<open>Aggregate maintenance\<close>

text \<open>
  C1. After a sequence of submit, update and remove operations on one item, \<open>avg_rating\<close>
  should be the mean of the ratings of the active reviews and \<open>number_rating\<close> their
  number. Only \<open>perform_create\<close> maintains the two fields; \<open>ReviewDetail\<close> updates and
  deletes the review row alone. After submitting 3 and 4, updating the 3 to 5 and removing
  the 4, the single active review has rating 5, and the item still shows the average 3.5
  over 2 ratings.
\<close>

theorem aggregate_not_maintained_by_update_delete:
  "map (\<lambda>w. (avg_rating w, number_rating w)) (watchlists after_ops) = [(7 / 2, 2)]
   \<and> active_ratings after_ops 1 = [5]
   \<and> spec_average_rating after_ops 1 = 5
   \<and> spec_rating_count after_ops 1 = 1
   \<and> \<bar>7 / 2 - spec_average_rating after_ops 1\<bar> > 1 / 10 ^ 9"
  by (simp add: review_ops_defs inputs_defs spec_average_rating_def spec_rating_count_def
      active_ratings_def)

text \<open>
  C2. Updating the only review of an item from 3 to 5 should leave \<open>number_rating\<close> at 1 and
  move \<open>avg_rating\<close> to 5. The update stores the new rating in the review, the count stays
  1, and the item's average stays 3: no delta is applied.
\<close>

theorem update_leaves_average_stale:
  "map rating (reviews after_create) = [3]
   \<and> map (\<lambda>w. (avg_rating w, number_rating w)) (watchlists after_create) = [(3, 1)]
   \<and> map rating (reviews after_update) = [5]
   \<and> map (\<lambda>w. (avg_rating w, number_rating w)) (watchlists after_update) = [(3, 1)]"
  by (simp add: review_ops_defs inputs_defs)

text \<open>
  C3. Removing the last review of an item should reset \<open>avg_rating\<close> and \<open>number_rating\<close>
  to 0. The removal succeeds and empties the review table, and the item keeps the average
  3 and the count 1.
\<close>

theorem delete_leaves_aggregate_stale:
  "fst (delete_review after_create 7 1) = Inr ()
   \<and> reviews after_delete = []
   \<and> map (\<lambda>w. (avg_rating w, number_rating w)) (watchlists after_delete) = [(3, 1)]"
  by (simp add: review_ops_defs inputs_defs)

text \<open>
  The review operations do keep one half of the aggregate's invariant: an item whose count
  is 0 has average 0, since creation never stores the count 0 and the other operations do
  not write the item.
\<close>

lemma zero_count_zero_average_preserved:
  assumes "list_all (\<lambda>w. number_rating w = 0 \<longrightarrow> avg_rating w = 0) (watchlists d)"
  shows "list_all (\<lambda>w. number_rating w = 0 \<longrightarrow> avg_rating w = 0)
           (watchlists (snd (create_review d now u pk data)))
       \<and> list_all (\<lambda>w. number_rating w = 0 \<longrightarrow> avg_rating w = 0)
           (watchlists (snd (update_review d now actor rid partial data)))
       \<and> list_all (\<lambda>w. number_rating w = 0 \<longrightarrow> avg_rating w = 0)
           (watchlists (snd (delete_review d actor rid)))
       \<and> list_all (\<lambda>w. number_rating w = 0 \<longrightarrow> avg_rating w = 0)
           (watchlists (snd (mark_helpful d now rid)))"
proof -
  have "list_all (\<lambda>w. number_rating w = 0 \<longrightarrow> avg_rating w = 0)
           (watchlists (snd (create_review d now u pk data)))"
    using assms
    by (auto simp: create_review_def perform_create_def new_avg_rating_def save_watchlist_def
        Let_def list_all_iff split: option.splits sum.splits if_splits)
  moreover have "watchlists (snd (update_review d now actor rid partial data)) = watchlists d"
    by (simp add: update_review_def save_review_def Let_def split: option.splits)
  moreover have "watchlists (snd (delete_review d actor rid)) = watchlists d"
    by (simp add: delete_review_def split: option.splits)
  moreover have "watchlists (snd (mark_helpful d now rid)) = watchlists d"
    by (simp add: mark_helpful_def save_review_def Let_def split: option.splits)
  ultimately show ?thesis using assms by simp
qed

section \<open>One review per user and item\<close>

text \<open>
  C4, as stated: \<open>CreateReview\<close> fails with \<open>DuplicateReview\<close> if and only if an active review
  exists for the pair. The check of \<open>perform_create\<close> does not look at \<open>active\<close>: with one
  inactive review of user 7 on item 1 and no active one, a second submission is a duplicate.
\<close>

theorem duplicate_of_inactive_review_counterexample:
  "filter (\<lambda>r. watchlist r = 1 \<and> review_user r = 7 \<and> rv_active r) (reviews inactive_db) = []
   \<and> fst (create_review inactive_db 20 7 1 (rate 4)) = Inl DuplicateReview"
  by (simp add: review_ops_defs inputs_defs)

text \<open>
  C4, amended: for a request that passes validation, on an existing item, \<open>CreateReview\<close>
  fails with \<open>DuplicateReview\<close> if and only if a review of that user on that item exists,
  active or not; and when it fails so, the database is the one it started from.
\<close>

theorem duplicate_review_iff_review_exists:
  assumes "is_valid False data = None" and "get_watchlist d pk = Some wl"
  shows "(fst (create_review d now u pk data) = Inl DuplicateReview
           \<longleftrightarrow> filter (\<lambda>r. watchlist r = pk \<and> review_user r = u) (reviews d) \<noteq> [])
         \<and> (fst (create_review d now u pk data) = Inl DuplicateReview
           \<longrightarrow> snd (create_review d now u pk data) = d)"
proof -
  from assms(2) have pk: "wl_id wl = pk"
    unfolding get_watchlist_def by (auto dest: find_Some_key)
  from assms(1) obtain r where r: "rd_rating data = Some r"
    by (auto simp: is_valid_def split: option.splits if_splits)
  show ?thesis
    using assms pk r
    by (auto simp: create_review_def perform_create_def new_avg_rating_def Let_def
        split: sum.splits if_splits)
qed

theorem duplicate_review_iff_review_exists_witness:
  "is_valid False (rate 4) = None
   \<and> get_watchlist after_create 1 = Some ((movie 1)\<lparr>avg_rating := 3, number_rating := 1\<rparr>)
   \<and> fst (create_review after_create 20 7 1 (rate 4)) = Inl DuplicateReview
   \<and> snd (create_review after_create 20 7 1 (rate 4)) = after_create"
proof -
  have v: "is_valid False (rate 4) = None"
    by (simp add: review_ops_defs inputs_defs)
  have g: "get_watchlist after_create 1 = Some ((movie 1)\<lparr>avg_rating := 3, number_rating := 1\<rparr>)"
    by (simp add: review_ops_defs inputs_defs)
  have e: "filter (\<lambda>r. watchlist r = 1 \<and> review_user r = 7) (reviews after_create) \<noteq> []"
    by (simp add: review_ops_defs inputs_defs)
  from duplicate_review_iff_review_exists [OF v g, of 20 7] e v g show ?thesis
    by blast
qed

section \<open>Rating range\<close>

text \<open>
  C8. A request carrying a rating \<open>r\<close> outside 1..5 is rejected with \<open>InvalidRating\<close> and
  the database is left as it was: always on creation; on update the request fails and
  changes nothing, and the failure is \<open>InvalidRating\<close> once the review exists and the actor
  owns it (a missing review or a foreign one is reported first). A rating inside 1..5, so
  1 and 5 in particular, succeeds when the rest of the request is in order, and is stored:
  a creation, for an existing item of which the user has no review and whose stored count
  is not -1, returns a review of that user and item with rating \<open>r\<close> and appends it to the
  review table; an update, of an existing review by its owner, returns that review with
  rating \<open>r\<close> and puts it in the place of the old row, where a later lookup finds it.
\<close>

theorem rating_range_validation:
  assumes "rd_rating data = Some r"
  shows "(\<not> valid_rating r \<longrightarrow>
            create_review d now u pk data = (Inl InvalidRating, d)
          \<and> snd (update_review d now actor rid partial data) = d
          \<and> (\<exists>e. fst (update_review d now actor rid partial data) = Inl e)
          \<and> (get_review d rid = Some rv \<and> is_review_user_or_read_only actor rv \<longrightarrow>
               update_review d now actor rid partial data = (Inl InvalidRating, d)))
       \<and> (valid_rating r \<and> valid_description (rd_description data) \<longrightarrow>
            (get_watchlist d pk = Some wl
               \<and> filter (\<lambda>x. watchlist x = wl_id wl \<and> review_user x = u) (reviews d) = []
               \<and> number_rating wl \<noteq> - 1 \<longrightarrow>
               (\<exists>new. fst (create_review d now u pk data) = Inr new \<and> rating new = r
                       \<and> review_user new = u \<and> watchlist new = pk
                       \<and> reviews (snd (create_review d now u pk data)) = reviews d @ [new]))
          \<and> (get_review d rid = Some rv \<and> is_review_user_or_read_only actor rv \<longrightarrow>
               (\<exists>new. fst (update_review d now actor rid partial data) = Inr new
                       \<and> rating new = r \<and> rv_id new = rid
                       \<and> review_user new = review_user rv \<and> watchlist new = watchlist rv
                       \<and> reviews (snd (update_review d now actor rid partial data))
                           = map (\<lambda>x. if rv_id x = rid then new else x) (reviews d)
                       \<and> get_review (snd (update_review d now actor rid partial data)) rid
                           = Some new)))"
proof (intro conjI impI)
  assume bad: "\<not> valid_rating r"
  show "create_review d now u pk data = (Inl InvalidRating, d)"
    using assms bad by (simp add: create_review_def invalid_rating_is_valid)
  show "snd (update_review d now actor rid partial data) = d"
    using assms bad by (simp add: update_review_def invalid_rating_is_valid split: option.splits)
  show "\<exists>e. fst (update_review d now actor rid partial data) = Inl e"
    using assms bad by (simp add: update_review_def invalid_rating_is_valid split: option.splits)
next
  assume "\<not> valid_rating r" "get_review d rid = Some rv \<and> is_review_user_or_read_only actor rv"
  then show "update_review d now actor rid partial data = (Inl InvalidRating, d)"
    using assms by (simp add: update_review_def invalid_rating_is_valid)
next
  assume ok: "valid_rating r \<and> valid_description (rd_description data)"
    and pre: "get_watchlist d pk = Some wl
               \<and> filter (\<lambda>x. watchlist x = wl_id wl \<and> review_user x = u) (reviews d) = []
               \<and> number_rating wl \<noteq> - 1"
  from pre have key: "wl_id wl = pk"
    by (auto simp: get_watchlist_def dest: find_Some_key)
  from pre have "\<exists>avg. new_avg_rating wl r = Inr avg"
    by (auto simp: new_avg_rating_def Let_def)
  then show "\<exists>new. fst (create_review d now u pk data) = Inr new \<and> rating new = r
                       \<and> review_user new = u \<and> watchlist new = pk
                       \<and> reviews (snd (create_review d now u pk data)) = reviews d @ [new]"
    using assms ok pre key
    by (auto simp: create_review_def perform_create_def save_watchlist_def valid_rating_is_valid
        Let_def)
next
  assume ok: "valid_rating r \<and> valid_description (rd_description data)"
    and pre: "get_review d rid = Some rv \<and> is_review_user_or_read_only actor rv"
  define new where "new = rv\<lparr>rating := r,
      description := (case rd_description data of None \<Rightarrow> description rv | Some x \<Rightarrow> x),
      is_spoiler := (case rd_is_spoiler data of None \<Rightarrow> is_spoiler rv | Some b \<Rightarrow> b),
      rv_active := (case rd_active data of None \<Rightarrow> rv_active rv | Some b \<Rightarrow> b),
      rv_update := now\<rparr>"
  from pre have f: "find (\<lambda>x. rv_id x = rid) (reviews d) = Some rv"
    by (simp add: get_review_def)
  then have key: "rv_id rv = rid"
    by (auto dest: find_Some_key)
  then have nk: "rv_id new = rid"
    by (simp add: new_def)
  have res: "update_review d now actor rid partial data = (Inr new, save_review new d)"
    using assms ok pre by (simp add: update_review_def valid_rating_is_valid Let_def new_def)
  have rs: "reviews (save_review new d) = map (\<lambda>x. if rv_id x = rid then new else x) (reviews d)"
    by (simp add: save_review_def nk)
  have "get_review (save_review new d) rid = Some new"
    unfolding get_review_def save_review_def using find_map_replace [OF f nk] by simp
  with res rs nk
  show "\<exists>new. fst (update_review d now actor rid partial data) = Inr new
                       \<and> rating new = r \<and> rv_id new = rid
                       \<and> review_user new = review_user rv \<and> watchlist new = watchlist rv
                       \<and> reviews (snd (update_review d now actor rid partial data))
                           = map (\<lambda>x. if rv_id x = rid then new else x) (reviews d)
                       \<and> get_review (snd (update_review d now actor rid partial data)) rid
                           = Some new"
    by (intro exI [of _ new]) (simp add: new_def)
qed

theorem rating_range_validation_witness:
  "rd_rating (rate 0) = Some 0 \<and> \<not> valid_rating 0
   \<and> create_review db_one_movie 10 7 1 (rate 0) = (Inl InvalidRating, db_one_movie)
   \<and> update_review after_create 20 7 1 False (rate 0) = (Inl InvalidRating, after_create)
   \<and> rd_rating (rate 5) = Some 5 \<and> valid_rating 5
   \<and> reviews db_one_movie = [] \<and> map rating (reviews after_create) = [3]
   \<and> (\<exists>new. fst (create_review db_one_movie 10 7 1 (rate 5)) = Inr new \<and> rating new = 5
             \<and> review_user new = 7 \<and> watchlist new = 1
             \<and> reviews (snd (create_review db_one_movie 10 7 1 (rate 5))) = [new])
   \<and> (\<exists>new. fst (update_review after_create 20 7 1 False (rate 5)) = Inr new \<and> rating new = 5
             \<and> rv_id new = 1
             \<and> reviews (snd (update_review after_create 20 7 1 False (rate 5))) = [new]
             \<and> get_review (snd (update_review after_create 20 7 1 False (rate 5))) 1 = Some new)"
proof -
  have r0: "rd_rating (rate 0) = Some 0" and r5: "rd_rating (rate 5) = Some 5"
    by (simp_all add: rate_def)
  have v: "\<not> valid_rating 0" "valid_rating 5" "valid_description (rd_description (rate 5))"
    by (simp_all add: valid_rating_def valid_description_def rate_def)
  have w: "get_watchlist db_one_movie 1 = Some (movie 1)"
    "filter (\<lambda>x. watchlist x = wl_id (movie 1) \<and> review_user x = 7) (reviews db_one_movie) = []"
    "number_rating (movie 1) \<noteq> - 1"
    by (simp_all add: get_watchlist_def db_one_movie_def movie_def)
  have e: "reviews db_one_movie = []"
    by (simp add: db_one_movie_def)
  obtain rv where g: "get_review after_create 1 = Some rv"
    and o: "is_review_user_or_read_only 7 rv"
    and rs: "reviews after_create = [rv]" and k: "rv_id rv = 1" and r3: "rating rv = 3"
    by (simp add: review_ops_defs inputs_defs)
  note a = rating_range_validation [OF r0, where d = db_one_movie and now = 10 and u = 7 and pk = 1]
  note b = rating_range_validation [OF r0, where d = after_create and now = 20 and actor = 7
      and rid = 1 and partial = False and rv = rv]
  note c = rating_range_validation [OF r5, where d = db_one_movie and now = 10 and u = 7 and pk = 1
      and wl = "movie 1"]
  note f = rating_range_validation [OF r5, where d = after_create and now = 20 and actor = 7
      and rid = 1 and partial = False and rv = rv]
  from a v have 1: "create_review db_one_movie 10 7 1 (rate 0) = (Inl InvalidRating, db_one_movie)"
    by blast
  from b v g o
  have 2: "update_review after_create 20 7 1 False (rate 0) = (Inl InvalidRating, after_create)"
    by blast
  from c v w
  have "\<exists>new. fst (create_review db_one_movie 10 7 1 (rate 5)) = Inr new \<and> rating new = 5
             \<and> review_user new = 7 \<and> watchlist new = 1
             \<and> reviews (snd (create_review db_one_movie 10 7 1 (rate 5)))
                 = reviews db_one_movie @ [new]"
    by blast
  then have 3: "\<exists>new. fst (create_review db_one_movie 10 7 1 (rate 5)) = Inr new \<and> rating new = 5
             \<and> review_user new = 7 \<and> watchlist new = 1
             \<and> reviews (snd (create_review db_one_movie 10 7 1 (rate 5))) = [new]"
    by (simp add: e)
  from f v g o
  have "\<exists>new. fst (update_review after_create 20 7 1 False (rate 5)) = Inr new \<and> rating new = 5
             \<and> rv_id new = 1
             \<and> reviews (snd (update_review after_create 20 7 1 False (rate 5)))
                 = map (\<lambda>x. if rv_id x = 1 then new else x) (reviews after_create)
             \<and> get_review (snd (update_review after_create 20 7 1 False (rate 5))) 1 = Some new"
    by blast
  then have 4: "\<exists>new. fst (update_review after_create 20 7 1 False (rate 5)) = Inr new
             \<and> rating new = 5 \<and> rv_id new = 1
             \<and> reviews (snd (update_review after_create 20 7 1 False (rate 5))) = [new]
             \<and> get_review (snd (update_review after_create 20 7 1 False (rate 5))) 1 = Some new"
    by (simp add: rs k)
  have 5: "map rating (reviews after_create) = [3]"
    by (simp add: rs r3)
  from r0 r5 v e 1 2 3 4 5 show ?thesis by blast
qed

section \<open>Helpful votes\<close>

text \<open>
  C9, as stated: a successful \<open>MarkHelpful\<close> changes nothing but \<open>helpful_count\<close>. The view
  saves the whole row, and \<open>Review.update\<close> is an \<open>auto_now\<close> field: a review last saved at
  time 10 and marked helpful at time 20 has its \<open>update\<close> timestamp moved to 20.
\<close>

theorem mark_helpful_touches_update_counterexample:
  "map rv_update (reviews after_create) = [10]
   \<and> fst (mark_helpful after_create 20 1) = Inr 1
   \<and> map rv_update (reviews (snd (mark_helpful after_create 20 1))) = [20]"
  by (simp add: review_ops_defs inputs_defs)

text \<open>
  C9, amended: with unique review identifiers, \<open>MarkHelpful\<close> fails with \<open>NotFound\<close> if and only
  if no review has the identifier, and then the database is unchanged; otherwise it returns
  the review's \<open>helpful_count\<close> plus 1, and the database differs from the old one in that
  review alone, whose \<open>helpful_count\<close> is one higher and whose \<open>update\<close> timestamp is the
  current time.
\<close>

theorem mark_helpful_effect:
  assumes "distinct (map rv_id (reviews d))"
  shows "(fst (mark_helpful d now pk) = Inl NotFound \<longleftrightarrow> pk \<notin> rv_id ` set (reviews d))
       \<and> (pk \<notin> rv_id ` set (reviews d) \<longrightarrow> mark_helpful d now pk = (Inl NotFound, d))
       \<and> (\<forall>rv \<in> set (reviews d). rv_id rv = pk \<longrightarrow>
             fst (mark_helpful d now pk) = Inr (helpful_count rv + 1))
       \<and> (pk \<in> rv_id ` set (reviews d) \<longrightarrow> snd (mark_helpful d now pk) =
             d\<lparr>reviews := map (\<lambda>x. if rv_id x = pk
                                     then x\<lparr>helpful_count := helpful_count x + 1, rv_update := now\<rparr>
                                     else x) (reviews d)\<rparr>)"
proof (cases "get_review d pk")
  case None
  then have "pk \<notin> rv_id ` set (reviews d)"
    by (simp add: get_review_def find_None_key)
  with None show ?thesis by (auto simp: mark_helpful_def)
next
  case (Some rv)
  then have in_tab: "pk \<in> rv_id ` set (reviews d)" and key: "rv_id rv = pk"
    using find_None_key [of rv_id pk "reviews d"] find_Some_key [of rv_id pk "reviews d" rv]
    by (auto simp: get_review_def)
  have uniq: "x = rv" if "x \<in> set (reviews d)" "rv_id x = pk" for x
    using assms Some that unfolding get_review_def by (rule find_distinct_key)
  have "map (\<lambda>x. if rv_id x = pk
                  then rv\<lparr>helpful_count := helpful_count rv + 1, rv_update := now\<rparr> else x)
            (reviews d)
      = map (\<lambda>x. if rv_id x = pk
                  then x\<lparr>helpful_count := helpful_count x + 1, rv_update := now\<rparr> else x)
            (reviews d)"
    by (rule map_cong) (auto dest: uniq)
  with Some in_tab key show ?thesis
    by (auto simp: mark_helpful_def save_review_def Let_def dest: uniq)
qed

theorem mark_helpful_effect_witness:
  "distinct (map rv_id (reviews two_reviews))
   \<and> 2 \<in> rv_id ` set (reviews two_reviews)
   \<and> 9 \<notin> rv_id ` set (reviews two_reviews)
   \<and> mark_helpful two_reviews 20 9 = (Inl NotFound, two_reviews)
   \<and> fst (mark_helpful two_reviews 20 2) = Inr 1
   \<and> map (\<lambda>x. (rv_id x, helpful_count x, rv_update x, rating x))
          (reviews (snd (mark_helpful two_reviews 20 2)))
       = [(1, 0, 10, 3), (2, 1, 20, 4)]
   \<and> watchlists (snd (mark_helpful two_reviews 20 2)) = watchlists two_reviews"
proof -
  have rs: "reviews two_reviews =
      [\<lparr>rv_id = 1, review_user = 7, rating = 3, description = None, watchlist = 1,
         rv_active = True, rv_created = 10, rv_update = 10, is_spoiler = False,
         helpful_count = 0\<rparr>,
       \<lparr>rv_id = 2, review_user = 8, rating = 4, description = None, watchlist = 1,
         rv_active = True, rv_created = 15, rv_update = 15, is_spoiler = False,
         helpful_count = 0\<rparr>]"
    by (simp add: two_reviews_def review_ops_defs inputs_defs)
  have d: "distinct (map rv_id (reviews two_reviews))"
    by (simp add: rs)
  have i: "2 \<in> rv_id ` set (reviews two_reviews)" "9 \<notin> rv_id ` set (reviews two_reviews)"
    by (simp_all add: rs)
  note a = mark_helpful_effect [OF d, of 20 9]
  note b = mark_helpful_effect [OF d, of 20 2]
  from a i have 1: "mark_helpful two_reviews 20 9 = (Inl NotFound, two_reviews)"
    by blast
  from b have "\<forall>rv \<in> set (reviews two_reviews). rv_id rv = 2 \<longrightarrow>
             fst (mark_helpful two_reviews 20 2) = Inr (helpful_count rv + 1)"
    by blast
  then have 2: "fst (mark_helpful two_reviews 20 2) = Inr 1"
    by (simp add: rs)
  from b i have 3: "snd (mark_helpful two_reviews 20 2) =
      two_reviews\<lparr>reviews :=
        map (\<lambda>x. if rv_id x = 2 then x\<lparr>helpful_count := helpful_count x + 1, rv_update := 20\<rparr>
                 else x) (reviews two_reviews)\<rparr>"
    by blast
  have 4: "map (\<lambda>x. (rv_id x, helpful_count x, rv_update x, rating x))
               (reviews (snd (mark_helpful two_reviews 20 2)))
       = [(1, 0, 10, 3), (2, 1, 20, 4)]"
    by (simp add: 3 rs)
  have 5: "watchlists (snd (mark_helpful two_reviews 20 2)) = watchlists two_reviews"
    by (simp add: 3)
  from d i 1 2 4 5 show ?thesis by blast
qed

section \<open>Properties of the rankings\<close>

lemma sorted_desc_sort_key:
  fixes f :: "'a \<Rightarrow> 'k::{linorder,ordered_ab_group_add}"
  shows "sorted_wrt (\<lambda>a b. f b \<le> f a) (sort_key (\<lambda>w. - f w) xs)"
proof -
  have "sorted (map (\<lambda>w. - f w) (sort_key (\<lambda>w. - f w) xs))"
    by (rule sorted_sort_key)
  then show ?thesis
    by (simp add: sorted_map)
qed

lemma sorted_wrt_take_prefix: "sorted_wrt R xs \<Longrightarrow> sorted_wrt R (take n xs)"
proof -
  assume "sorted_wrt R xs"
  then have "sorted_wrt R (take n xs @ drop n xs)" by simp
  then show ?thesis unfolding sorted_wrt_append by blast
qed

lemma sorted_wrt_take_drop_rel:
  assumes "sorted_wrt R xs" and "v \<in> set (take n xs)" and "w \<in> set (drop n xs)"
  shows "R v w"
proof -
  from assms(1) have "sorted_wrt R (take n xs @ drop n xs)" by simp
  with assms(2,3) show ?thesis unfolding sorted_wrt_append by blast
qed

lemma not_in_take_full:
  assumes "w \<in> set xs" and "w \<notin> set (take n xs)"
  shows "w \<in> set (drop n xs) \<and> length (take n xs) = n"
proof -
  have "set xs = set (take n xs) \<union> set (drop n xs)"
    by (metis append_take_drop_id set_append)
  with assms have in_drop: "w \<in> set (drop n xs)" by blast
  then have "drop n xs \<noteq> []" by auto
  then have "n < length xs" by simp
  with in_drop show ?thesis by simp
qed




lemma product_filter_other:
  "w \<notin> set ws \<Longrightarrow> filter (\<lambda>(w', r). w' = w \<and> Q w' r) (List.product ws rs) = []"
  by (induction ws) (auto simp: filter_empty_conv)

lemma filter_Pair_same:
  "filter (\<lambda>(w', r). w' = w \<and> Q w' r) (map (Pair w) rs) = map (Pair w) (filter (Q w) rs)"
  by (induction rs) auto

lemma filter_Pair_other:
  "x \<noteq> w \<Longrightarrow> filter (\<lambda>(w', r). w' = w \<and> Q w' r) (map (Pair x) rs) = []"
  by (induction rs) auto

lemma product_filter_group:
  "distinct ws \<Longrightarrow> w \<in> set ws \<Longrightarrow>
     length (filter (\<lambda>(w', r). w' = w \<and> Q w' r) (List.product ws rs)) = length (filter (Q w) rs)"
proof (induction ws)
  case Nil
  then show ?case by simp
next
  case (Cons x ws)
  show ?case
  proof (cases "x = w")
    case True
    with Cons.prems have "w \<notin> set ws" by simp
    then show ?thesis
      using True by (simp add: filter_Pair_same product_filter_other)
  next
    case False
    with Cons show ?thesis
      by (simp add: filter_Pair_other)
  qed
qed

lemma trending_rows_member:
  "(w, r) \<in> set (trending_rows d now) \<longleftrightarrow>
     w \<in> set (watchlists d) \<and> r \<in> set (reviews d) \<and> watchlist r = wl_id w
     \<and> now - 7 * 86400 \<le> rv_created r \<and> wl_active w"
  by (auto simp: trending_rows_def timedelta_days_def Let_def)

lemma recent_review_count_window:
  assumes "distinct (watchlists d)" and "w \<in> set (watchlists d)" and "wl_active w"
  shows "recent_review_count (trending_rows d now) w = window_count d now w"
proof -
  let ?Q = "\<lambda>w' r. watchlist r = wl_id w' \<and> now - 7 * 86400 \<le> rv_created r \<and> wl_active w'"
  have "filter (\<lambda>(w', r). w' = w) (trending_rows d now)
      = filter (\<lambda>(w', r). w' = w \<and> ?Q w' r) (List.product (watchlists d) (reviews d))"
    unfolding trending_rows_def timedelta_days_def Let_def filter_filter
    by (rule filter_cong) auto
  then have "recent_review_count (trending_rows d now) w = length (filter (?Q w) (reviews d))"
    unfolding recent_review_count_def using assms(1,2) by (simp only: product_filter_group)
  also have "\<dots> = window_count d now w"
    using assms(3) by (simp add: window_count_def)
  finally show ?thesis .
qed

text \<open>
  C7. With unique item identifiers, \<open>GetTrending\<close> returns only active items with at least
  one review created within the trailing 7 days, each once, at most 10 of them, ordered
  descending by the number of the item's reviews created within these 7 days: the count the
  query annotates is that number, not the number of all reviews of the item. An active item
  with a recent review is left out only when 10 items are returned, none with a smaller
  such number.
\<close>

theorem trending_recent_window:
  assumes "distinct (map wl_id (watchlists d))"
  shows "(\<forall>w \<in> set (trending d now).
            w \<in> set (watchlists d) \<and> wl_active w \<and> 1 \<le> window_count d now w
            \<and> recent_review_count (trending_rows d now) w = window_count d now w)
       \<and> sorted_wrt (\<lambda>a b. window_count d now a \<ge> window_count d now b) (trending d now)
       \<and> length (trending d now) \<le> 10
       \<and> distinct (trending d now)
       \<and> (\<forall>w \<in> set (watchlists d).
            wl_active w \<and> 1 \<le> window_count d now w \<and> w \<notin> set (trending d now) \<longrightarrow>
              length (trending d now) = 10
              \<and> (\<forall>v \<in> set (trending d now). window_count d now w \<le> window_count d now v))"
proof -
  let ?rows = "trending_rows d now"
  let ?g = "remdups (map fst ?rows)"
  let ?c = "\<lambda>w. int (recent_review_count ?rows w)"
  let ?s = "sort_key (\<lambda>w. - ?c w) ?g"
  have tr: "trending d now = take 10 ?s"
    by (simp add: trending_def Let_def)
  from assms have dist: "distinct (watchlists d)"
    by (simp add: distinct_map)
  have grp: "w \<in> set (watchlists d) \<and> wl_active w \<and> 1 \<le> window_count d now w
             \<and> recent_review_count ?rows w = window_count d now w" if "w \<in> set ?s" for w
  proof -
    from that obtain r where r: "(w, r) \<in> set ?rows" by auto
    then have w: "w \<in> set (watchlists d)" "wl_active w"
      and rv: "r \<in> set (reviews d)" "watchlist r = wl_id w" "now - 7 * 86400 \<le> rv_created r"
      by (simp_all add: trending_rows_member)
    from rv have "filter (\<lambda>r. watchlist r = wl_id w \<and> now - 7 * 86400 \<le> rv_created r) (reviews d) \<noteq> []"
      by (auto simp: filter_empty_conv)
    then have "1 \<le> window_count d now w"
      unfolding window_count_def by (simp add: Suc_le_eq)
    with w recent_review_count_window [OF dist w] show ?thesis by simp
  qed
  have in_grp: "w \<in> set ?s"
    if "w \<in> set (watchlists d)" "wl_active w" "1 \<le> window_count d now w" for w
  proof -
    from that(3) have "filter (\<lambda>r. watchlist r = wl_id w \<and> now - 7 * 86400 \<le> rv_created r) (reviews d) \<noteq> []"
      unfolding window_count_def by auto
    then obtain r where "r \<in> set (reviews d)" "watchlist r = wl_id w" "now - 7 * 86400 \<le> rv_created r"
      by (auto simp: filter_empty_conv)
    with that(1,2) have "(w, r) \<in> set ?rows"
      by (simp add: trending_rows_member)
    then have "w \<in> fst ` set ?rows" by force
    then show ?thesis by simp
  qed
  have "sorted_wrt (\<lambda>a b. ?c b \<le> ?c a) ?s"
    by (rule sorted_desc_sort_key)
  then have srt: "sorted_wrt (\<lambda>a b. window_count d now b \<le> window_count d now a) ?s"
    by (rule sorted_wrt_mono_rel [rotated]) (use grp in auto)
  have 1: "\<forall>w \<in> set (trending d now).
            w \<in> set (watchlists d) \<and> wl_active w \<and> 1 \<le> window_count d now w
            \<and> recent_review_count ?rows w = window_count d now w"
  proof
    fix w assume "w \<in> set (trending d now)"
    then have "w \<in> set ?s" unfolding tr by (rule in_set_takeD)
    then show "w \<in> set (watchlists d) \<and> wl_active w \<and> 1 \<le> window_count d now w
            \<and> recent_review_count ?rows w = window_count d now w" by (rule grp)
  qed
  have 2: "sorted_wrt (\<lambda>a b. window_count d now a \<ge> window_count d now b) (trending d now)"
    unfolding tr using srt by (rule sorted_wrt_take_prefix)
  have 3: "length (trending d now) \<le> 10"
    by (simp add: tr)
  have 4: "distinct (trending d now)"
    by (simp add: tr)
  have 5: "\<forall>w \<in> set (watchlists d).
            wl_active w \<and> 1 \<le> window_count d now w \<and> w \<notin> set (trending d now) \<longrightarrow>
              length (trending d now) = 10
              \<and> (\<forall>v \<in> set (trending d now). window_count d now w \<le> window_count d now v)"
  proof (intro ballI impI)
    fix w assume w: "w \<in> set (watchlists d)"
      and q: "wl_active w \<and> 1 \<le> window_count d now w \<and> w \<notin> set (trending d now)"
    from w q have "w \<in> set ?s" by (simp only: in_grp)
    moreover from q have "w \<notin> set (take 10 ?s)" by (simp add: tr)
    ultimately have dr: "w \<in> set (drop 10 ?s) \<and> length (take 10 ?s) = 10"
      by (rule not_in_take_full)
    have "\<forall>v \<in> set (trending d now). window_count d now w \<le> window_count d now v"
    proof
      fix v assume "v \<in> set (trending d now)"
      then have "v \<in> set (take 10 ?s)" by (simp add: tr)
      from sorted_wrt_take_drop_rel
        [of "\<lambda>a b. window_count d now b \<le> window_count d now a" ?s v 10 w, OF srt this]
      show "window_count d now w \<le> window_count d now v" using dr by blast
    qed
    with dr show "length (trending d now) = 10
              \<and> (\<forall>v \<in> set (trending d now). window_count d now w \<le> window_count d now v)"
      by (simp add: tr)
  qed
  from 1 2 3 4 5 show ?thesis by blast
qed

theorem trending_recent_window_witness:
  "distinct (map wl_id (watchlists week_db))
   \<and> map wl_id (trending week_db 1000000) = [2, 1]
   \<and> map (window_count week_db 1000000) (watchlists week_db) = [1, 2, 1, 0]
   \<and> list_all (\<lambda>w. w \<in> set (watchlists week_db) \<and> wl_active w
                    \<and> 1 \<le> window_count week_db 1000000 w
                    \<and> recent_review_count (trending_rows week_db 1000000) w
                        = window_count week_db 1000000 w)
        (trending week_db 1000000)
   \<and> sorted_wrt (\<lambda>a b. window_count week_db 1000000 a \<ge> window_count week_db 1000000 b)
        (trending week_db 1000000)
   \<and> distinct (map wl_id (watchlists busy_db))
   \<and> movie 11 \<in> set (watchlists busy_db) \<and> wl_active (movie 11)
   \<and> 1 \<le> window_count busy_db 1000000 (movie 11)
   \<and> movie 11 \<notin> set (trending busy_db 1000000)
   \<and> length (trending busy_db 1000000) = 10
   \<and> list_all (\<lambda>v. window_count busy_db 1000000 (movie 11) \<le> window_count busy_db 1000000 v)
        (trending busy_db 1000000)"
proof -
  have dw: "distinct (map wl_id (watchlists week_db))"
    by code_simp
  have db: "distinct (map wl_id (watchlists busy_db))"
    by code_simp
  have e: "map wl_id (trending week_db 1000000) = [2, 1]"
    "map (window_count week_db 1000000) (watchlists week_db) = [1, 2, 1, 0]"
    by code_simp+
  have m: "movie 11 \<in> set (watchlists busy_db) \<and> wl_active (movie 11)
           \<and> 1 \<le> window_count busy_db 1000000 (movie 11)
           \<and> movie 11 \<notin> set (trending busy_db 1000000)"
    by code_simp
  note a = trending_recent_window [OF dw, of 1000000]
  note b = trending_recent_window [OF db, of 1000000]
  from b m have "length (trending busy_db 1000000) = 10
      \<and> (\<forall>v \<in> set (trending busy_db 1000000).
            window_count busy_db 1000000 (movie 11) \<le> window_count busy_db 1000000 v)"
    by blast
  with a dw db e m show ?thesis
    unfolding list_all_iff by blast
qed

lemma similar_rows_member:
  "w \<in> set (similar_rows d ref) \<longleftrightarrow>
     w \<in> set (watchlists d) \<and> set (genres w) \<inter> set (genres ref) \<noteq> {}"
  by (auto simp: similar_rows_def)

text \<open>
  C10. When \<open>GetSimilar\<close> returns a list for a reference item, no row occurs in it twice (and
  no identifier, identifiers being unique in the table), although the join yields one row
  for each shared genre; the reference item's identifier is not among the results; every
  result is an active item of the table sharing a genre with the reference; at most 10
  are returned.
\<close>

theorem similar_once_without_reference:
  assumes "similar d pk = Inr res"
  shows "distinct res
       \<and> pk \<notin> wl_id ` set res
       \<and> (distinct (map wl_id (watchlists d)) \<longrightarrow> distinct (map wl_id res))
       \<and> length res \<le> 10
       \<and> (\<exists>ref. get_watchlist d pk = Some ref
             \<and> (\<forall>w \<in> set res. w \<in> set (watchlists d) \<and> wl_active w
                   \<and> set (genres w) \<inter> set (genres ref) \<noteq> {}))"
proof -
  from assms obtain ref where m: "get_watchlist d pk = Some ref"
    by (auto simp: similar_def split: option.splits)
  let ?q = "remdups (filter (\<lambda>w. wl_id w \<noteq> pk) (filter wl_active (similar_rows d ref)))"
  from assms m have res: "res = take 10 (sort_key (\<lambda>w. - wl_created w) ?q)"
    by (simp add: similar_def)
  have sub: "w \<in> set (watchlists d) \<and> wl_active w \<and> wl_id w \<noteq> pk
             \<and> set (genres w) \<inter> set (genres ref) \<noteq> {}" if "w \<in> set res" for w
  proof -
    from that have "w \<in> set (sort_key (\<lambda>w. - wl_created w) ?q)"
      unfolding res by (rule in_set_takeD)
    then show ?thesis by (simp add: similar_rows_member)
  qed
  have 1: "distinct res"
    by (simp add: res)
  have 2: "pk \<notin> wl_id ` set res"
    using sub by blast
  have 3: "distinct (map wl_id (watchlists d)) \<longrightarrow> distinct (map wl_id res)"
  proof
    assume "distinct (map wl_id (watchlists d))"
    then have "inj_on wl_id (set (watchlists d))"
      by (simp add: distinct_map)
    moreover have "set res \<subseteq> set (watchlists d)"
      using sub by blast
    ultimately have "inj_on wl_id (set res)"
      by (rule inj_on_subset)
    with 1 show "distinct (map wl_id res)"
      by (simp add: distinct_map)
  qed
  have 4: "length res \<le> 10"
    by (simp add: res)
  from 1 2 3 4 m sub show ?thesis by blast
qed

theorem similar_once_without_reference_witness:
  "similar genre_db 1 = Inr [with_genres 2 [1, 2, 3], with_genres 5 [2]]
   \<and> map wl_id (similar_rows genre_db (with_genres 1 [1, 2])) = [1, 1, 2, 2, 4, 5]
   \<and> distinct (map wl_id (watchlists genre_db))
   \<and> distinct (map wl_id [with_genres 2 [1, 2, 3], with_genres 5 [2]])
   \<and> 1 \<notin> wl_id ` set [with_genres 2 [1, 2, 3], with_genres 5 [2]]"
proof -
  have e: "similar genre_db 1 = Inr [with_genres 2 [1, 2, 3], with_genres 5 [2]]"
    by code_simp
  have r: "map wl_id (similar_rows genre_db (with_genres 1 [1, 2])) = [1, 1, 2, 2, 4, 5]"
    by code_simp
  have d: "distinct (map wl_id (watchlists genre_db))"
    by code_simp
  from similar_once_without_reference [OF e] d e r show ?thesis by blast
qed

section \<open>Writers of the aggregate fields\<close>





end
